theory Spec2Isabelle
  imports Main "HOL-Library.List_Lexorder" "HOL-Library.Multiset"
begin

section \<open>Pitch class sets (pitch_class_set.py)\<close>

text \<open>
  Python exceptions that the modelled functions can raise. A function that can raise
  returns \<open>py_error + 'a\<close>, with \<open>Inl\<close> for the exception.
\<close>

datatype py_error = AttributeError | IndexError | ValueError

text \<open>
  The dataclass \<open>PitchClassSet\<close> has the field \<open>pitch_classes\<close> and the attribute
  \<open>cardinality\<close> that \<open>__post_init__\<close> sets. Python integers are unbounded, hence \<open>int\<close>.
\<close>

record pitch_class_set =
  pitch_classes :: "int list"
  cardinality :: nat

text \<open>
  The constructor followed by \<open>__post_init__\<close>:
  \<open>sorted(list(set([pc % 12 for pc in self.pitch_classes])))\<close>. Python's \<open>%\<close> with a
  positive modulus is the floored remainder, which is \<open>mod\<close> on \<open>int\<close>.
\<close>

definition PitchClassSet :: "int list \<Rightarrow> pitch_class_set" where
  "PitchClassSet pcs =
     (let normalized = sort (remdups (map (\<lambda>pc. pc mod 12) pcs))
      in \<lparr>pitch_classes = normalized, cardinality = length normalized\<rparr>)"

text \<open>\<open>__eq__\<close> between two instances compares the stored lists.\<close>

definition pcs_eq :: "pitch_class_set \<Rightarrow> pitch_class_set \<Rightarrow> bool" where
  "pcs_eq self other = (pitch_classes self = pitch_classes other)"

text \<open>\<open>__len__\<close>\<close>

definition len :: "pitch_class_set \<Rightarrow> int" where
  "len self = int (cardinality self)"

definition transposition :: "pitch_class_set \<Rightarrow> int \<Rightarrow> pitch_class_set" where
  "transposition self n = PitchClassSet (map (\<lambda>pc. (pc + n) mod 12) (pitch_classes self))"

definition inversion :: "pitch_class_set \<Rightarrow> int \<Rightarrow> pitch_class_set" where
  "inversion self n = PitchClassSet (map (\<lambda>pc. (n - pc) mod 12) (pitch_classes self))"

text \<open>
  \<open>rotation\<close>: \<open>n % len\<close> is non-negative, so both slices are plain \<open>drop\<close> and \<open>take\<close>;
  the rotated list goes through the constructor.
\<close>

definition rotation :: "pitch_class_set \<Rightarrow> int \<Rightarrow> pitch_class_set" where
  "rotation self n =
     (if pitch_classes self = [] then PitchClassSet []
      else
        let m = nat (n mod int (length (pitch_classes self)));
            rotated_pcs = drop m (pitch_classes self) @ take m (pitch_classes self)
        in PitchClassSet rotated_pcs)"

text \<open>
  \<open>retrograde\<close>: the result is constructed from the reversed list and its field
  \<open>pitch_classes\<close> is then overwritten with the reversed list; \<open>cardinality\<close> keeps the
  value the constructor gave it.
\<close>

definition retrograde :: "pitch_class_set \<Rightarrow> pitch_class_set" where
  "retrograde self =
     (if pitch_classes self = [] then PitchClassSet []
      else
        let retrograde_pcs = rev (pitch_classes self);
            result = PitchClassSet retrograde_pcs
        in result\<lparr>pitch_classes := retrograde_pcs\<rparr>)"

definition retrograde_inversion :: "pitch_class_set \<Rightarrow> int \<Rightarrow> pitch_class_set" where
  "retrograde_inversion self n = retrograde (inversion self n)"

definition get_playback_order :: "pitch_class_set \<Rightarrow> int list" where
  "get_playback_order self = pitch_classes self"

text \<open>
  Python's \<open>min\<close> over a list of lists: the first smallest element in the lexicographic
  order of lists (the order of \<open>List_Lexorder\<close>, where a proper prefix is smaller);
  \<open>ValueError\<close> on an empty argument.
\<close>

fun py_min :: "int list list \<Rightarrow> py_error + int list" where
  "py_min [] = Inl ValueError"
| "py_min (c # cs) = Inr (fold (\<lambda>x m. if x < m then x else m) cs c)"

text \<open>
  \<open>prime_form\<close>: the candidates are the stored lists of \<open>self.rotation(i)\<close> for every
  index \<open>i\<close>, then those of \<open>self.inversion().rotation(i)\<close> (inversion around the default 0).
\<close>

definition prime_form :: "pitch_class_set \<Rightarrow> py_error + int list" where
  "prime_form self =
     (if pitch_classes self = [] then Inr []
      else
        let inverted = inversion self 0;
            candidates =
              map (\<lambda>i. pitch_classes (rotation self (int i))) [0..<length (pitch_classes self)]
              @ map (\<lambda>i. pitch_classes (rotation inverted (int i)))
                  [0..<length (pitch_classes inverted)]
        in py_min candidates)"

text \<open>
  \<open>interval_counts[interval_class - 1] += 1\<close>: a Python list index below 0 counts from
  the end, and an index outside the list raises \<open>IndexError\<close>.
\<close>

definition incr_at :: "int list \<Rightarrow> int \<Rightarrow> py_error + int list" where
  "incr_at counts idx =
     (let pos = (if idx < 0 then idx + int (length counts) else idx)
      in if pos < 0 \<or> int (length counts) \<le> pos then Inl IndexError
         else Inr (counts[nat pos := counts ! nat pos + 1]))"

text \<open>
  \<open>interval_vector\<close>: the outer loop runs \<open>i\<close> over \<open>range(len)\<close>, the inner loop \<open>j\<close> over
  \<open>range(i + 1, len)\<close>; both indices are inside the list.
\<close>

fun iv_inner :: "int list \<Rightarrow> nat \<Rightarrow> nat list \<Rightarrow> int list \<Rightarrow> py_error + int list" where
  "iv_inner pcs i [] interval_counts = Inr interval_counts"
| "iv_inner pcs i (j # js) interval_counts =
     (let interval = \<bar>pcs ! i - pcs ! j\<bar>;
          interval_class = min interval (12 - interval)
      in case incr_at interval_counts (interval_class - 1) of
           Inl e \<Rightarrow> Inl e
         | Inr counts' \<Rightarrow> iv_inner pcs i js counts')"

fun iv_outer :: "int list \<Rightarrow> nat list \<Rightarrow> int list \<Rightarrow> py_error + int list" where
  "iv_outer pcs [] interval_counts = Inr interval_counts"
| "iv_outer pcs (i # is) interval_counts =
     (case iv_inner pcs i [i + 1..<length pcs] interval_counts of
        Inl e \<Rightarrow> Inl e
      | Inr counts' \<Rightarrow> iv_outer pcs is counts')"

definition interval_vector :: "pitch_class_set \<Rightarrow> py_error + int list" where
  "interval_vector self =
     (if length (pitch_classes self) < 2 then Inr [0, 0, 0, 0, 0, 0]
      else iv_outer (pitch_classes self) [0..<length (pitch_classes self)] (replicate 6 0))"

section \<open>The classification table (forte_classification.py)\<close>

text \<open>
  \<open>FORTE_TABLE\<close> is a dict from cardinality to a dict from prime-form tuple to label.
  Python dicts iterate in insertion order, so each inner dict is an association list in
  the order of the source; \<open>.get\<close> is \<open>map_of\<close> and \<open>.items()\<close> is the list itself
  (the keys of each inner dict are distinct, see \<open>forte_keys_distinct\<close>).
\<close>

definition forte_1 :: "(int list \<times> string) list" where
  "forte_1 =
    [([0], ''1-1'')]"

definition forte_2 :: "(int list \<times> string) list" where
  "forte_2 =
    [([0, 1], ''2-1''), ([0, 2], ''2-2''), ([0, 3], ''2-3''), ([0, 4], ''2-4''),
     ([0, 5], ''2-5''), ([0, 6], ''2-6'')]"

definition forte_3 :: "(int list \<times> string) list" where
  "forte_3 =
    [([0, 1, 2], ''3-1''), ([0, 1, 3], ''3-2''), ([0, 1, 4], ''3-3''), ([0, 1, 5], ''3-4''),
     ([0, 1, 6], ''3-5''), ([0, 2, 4], ''3-6''), ([0, 2, 5], ''3-7''), ([0, 2, 6], ''3-8''),
     ([0, 2, 7], ''3-9''), ([0, 3, 6], ''3-10''), ([0, 3, 7], ''3-11''), ([0, 4, 7], ''3-11''),
     ([0, 4, 8], ''3-12'')]"

definition forte_4 :: "(int list \<times> string) list" where
  "forte_4 =
    [([0, 1, 2, 3], ''4-1''), ([0, 1, 2, 4], ''4-2''), ([0, 1, 2, 5], ''4-3''),
     ([0, 1, 2, 6], ''4-4''), ([0, 1, 2, 7], ''4-5''), ([0, 1, 3, 4], ''4-6''),
     ([0, 1, 3, 5], ''4-7''), ([0, 1, 3, 6], ''4-8''), ([0, 1, 3, 7], ''4-9''),
     ([0, 1, 4, 5], ''4-10''), ([0, 1, 4, 6], ''4-11''), ([0, 1, 4, 7], ''4-12''),
     ([0, 1, 5, 6], ''4-13''), ([0, 1, 5, 7], ''4-14''), ([0, 1, 6, 7], ''4-15''),
     ([0, 2, 3, 5], ''4-16''), ([0, 2, 3, 6], ''4-17''), ([0, 2, 3, 7], ''4-18''),
     ([0, 2, 4, 6], ''4-19''), ([0, 2, 4, 7], ''4-20''), ([0, 2, 4, 8], ''4-21''),
     ([0, 2, 5, 7], ''4-22''), ([0, 2, 5, 8], ''4-23''), ([0, 2, 6, 8], ''4-24''),
     ([0, 3, 4, 7], ''4-25''), ([0, 3, 5, 8], ''4-26''), ([0, 3, 6, 9], ''4-27''),
     ([0, 4, 5, 8], ''4-28''), ([0, 4, 6, 10], ''4-29''), ([0, 2, 5, 9], ''4-26''),
     ([0, 1, 5, 8], ''4-25'')]"

definition forte_5 :: "(int list \<times> string) list" where
  "forte_5 =
    [([0, 1, 2, 3, 4], ''5-1''), ([0, 1, 2, 3, 5], ''5-2''), ([0, 1, 2, 3, 6], ''5-3''),
     ([0, 1, 2, 3, 7], ''5-4''), ([0, 1, 2, 4, 5], ''5-5''), ([0, 1, 2, 4, 6], ''5-6''),
     ([0, 1, 2, 4, 7], ''5-7''), ([0, 1, 2, 4, 8], ''5-8''), ([0, 1, 2, 5, 6], ''5-9''),
     ([0, 1, 2, 5, 7], ''5-10''), ([0, 1, 2, 5, 8], ''5-11''), ([0, 1, 2, 6, 7], ''5-12''),
     ([0, 1, 2, 6, 8], ''5-13''), ([0, 1, 2, 6, 9], ''5-14''), ([0, 1, 3, 4, 5], ''5-15''),
     ([0, 1, 3, 4, 6], ''5-16''), ([0, 1, 3, 4, 7], ''5-17''), ([0, 1, 3, 4, 8], ''5-18''),
     ([0, 1, 3, 5, 6], ''5-19''), ([0, 1, 3, 5, 7], ''5-20''), ([0, 1, 3, 5, 8], ''5-21''),
     ([0, 1, 3, 6, 7], ''5-22''), ([0, 1, 3, 6, 8], ''5-23''), ([0, 1, 3, 6, 9], ''5-24''),
     ([0, 1, 4, 5, 6], ''5-25''), ([0, 1, 4, 5, 7], ''5-26''), ([0, 1, 4, 5, 8], ''5-27''),
     ([0, 1, 4, 6, 7], ''5-28''), ([0, 1, 4, 6, 8], ''5-29''), ([0, 1, 4, 6, 9], ''5-30''),
     ([0, 1, 5, 6, 7], ''5-31''), ([0, 1, 5, 6, 8], ''5-32''), ([0, 1, 5, 6, 9], ''5-33''),
     ([0, 2, 3, 4, 6], ''5-34''), ([0, 2, 3, 4, 7], ''5-35''), ([0, 2, 3, 5, 7], ''5-36''),
     ([0, 2, 3, 5, 8], ''5-37''), ([0, 2, 4, 5, 8], ''5-38'')]"

definition forte_6 :: "(int list \<times> string) list" where
  "forte_6 =
    [([0, 1, 2, 3, 4, 5], ''6-1''), ([0, 1, 2, 3, 4, 6], ''6-2''),
     ([0, 1, 2, 3, 4, 7], ''6-3''), ([0, 1, 2, 3, 5, 6], ''6-4''),
     ([0, 1, 2, 3, 5, 7], ''6-5''), ([0, 1, 2, 3, 5, 8], ''6-6''),
     ([0, 1, 2, 3, 6, 7], ''6-7''), ([0, 1, 2, 3, 6, 8], ''6-8''),
     ([0, 1, 2, 3, 6, 9], ''6-9''), ([0, 1, 2, 4, 5, 6], ''6-10''),
     ([0, 1, 2, 4, 5, 7], ''6-11''), ([0, 1, 2, 4, 5, 8], ''6-12''),
     ([0, 1, 2, 4, 6, 7], ''6-13''), ([0, 1, 2, 4, 6, 8], ''6-14''),
     ([0, 1, 2, 4, 6, 9], ''6-15''), ([0, 1, 2, 4, 7, 8], ''6-16''),
     ([0, 1, 2, 5, 6, 7], ''6-17''), ([0, 1, 2, 5, 6, 8], ''6-18''),
     ([0, 1, 2, 5, 6, 9], ''6-19''), ([0, 1, 2, 5, 7, 8], ''6-20''),
     ([0, 1, 2, 6, 7, 8], ''6-21''), ([0, 1, 2, 6, 7, 9], ''6-22''),
     ([0, 1, 2, 6, 8, 10], ''6-23''), ([0, 1, 3, 4, 5, 6], ''6-24''),
     ([0, 1, 3, 4, 5, 7], ''6-25''), ([0, 1, 3, 4, 5, 8], ''6-26''),
     ([0, 1, 3, 4, 6, 7], ''6-27''), ([0, 1, 3, 4, 6, 8], ''6-28''),
     ([0, 1, 3, 4, 6, 9], ''6-29''), ([0, 1, 3, 4, 7, 8], ''6-30''),
     ([0, 1, 3, 5, 6, 7], ''6-31''), ([0, 1, 3, 5, 6, 8], ''6-32''),
     ([0, 1, 3, 5, 6, 9], ''6-33''), ([0, 1, 3, 5, 7, 8], ''6-34''),
     ([0, 1, 3, 6, 7, 8], ''6-35''), ([0, 1, 3, 6, 7, 9], ''6-36''),
     ([0, 1, 3, 6, 8, 9], ''6-37''), ([0, 1, 4, 5, 6, 7], ''6-38''),
     ([0, 1, 4, 5, 6, 8], ''6-39''), ([0, 1, 4, 5, 6, 9], ''6-40''),
     ([0, 1, 4, 5, 7, 8], ''6-41''), ([0, 1, 4, 6, 7, 8], ''6-42''),
     ([0, 1, 4, 6, 7, 9], ''6-43''), ([0, 1, 4, 6, 8, 9], ''6-44''),
     ([0, 1, 5, 6, 7, 8], ''6-45''), ([0, 1, 5, 6, 7, 9], ''6-46''),
     ([0, 1, 5, 6, 8, 9], ''6-47''), ([0, 2, 3, 4, 5, 7], ''6-48''),
     ([0, 2, 3, 4, 6, 8], ''6-49''), ([0, 2, 3, 5, 6, 8], ''6-50''),
     ([0, 2, 4, 6, 8, 10], ''6-35'')]"

definition forte_7 :: "(int list \<times> string) list" where
  "forte_7 =
    [([0, 1, 2, 3, 4, 5, 6], ''7-1''), ([0, 1, 2, 3, 4, 5, 7], ''7-2''),
     ([0, 1, 2, 3, 4, 5, 8], ''7-3''), ([0, 1, 2, 3, 4, 6, 7], ''7-4''),
     ([0, 1, 2, 3, 4, 6, 8], ''7-5''), ([0, 1, 2, 3, 4, 6, 9], ''7-6''),
     ([0, 1, 2, 3, 5, 6, 7], ''7-7''), ([0, 1, 2, 3, 5, 6, 8], ''7-8''),
     ([0, 1, 2, 3, 5, 6, 9], ''7-9''), ([0, 1, 2, 3, 5, 7, 8], ''7-10''),
     ([0, 1, 2, 3, 6, 7, 8], ''7-11''), ([0, 1, 2, 3, 6, 7, 9], ''7-12''),
     ([0, 1, 2, 3, 6, 8, 9], ''7-13''), ([0, 1, 2, 4, 5, 6, 7], ''7-14''),
     ([0, 1, 2, 4, 5, 6, 8], ''7-15''), ([0, 1, 2, 4, 5, 6, 9], ''7-16''),
     ([0, 1, 2, 4, 5, 7, 8], ''7-17''), ([0, 1, 2, 4, 6, 7, 8], ''7-18''),
     ([0, 1, 2, 4, 6, 7, 9], ''7-19''), ([0, 1, 2, 4, 6, 8, 9], ''7-20''),
     ([0, 1, 2, 5, 6, 7, 8], ''7-21''), ([0, 1, 2, 5, 6, 7, 9], ''7-22''),
     ([0, 1, 2, 5, 6, 8, 9], ''7-23''), ([0, 1, 2, 6, 7, 8, 9], ''7-24''),
     ([0, 1, 3, 4, 5, 6, 7], ''7-25''), ([0, 1, 3, 4, 5, 6, 8], ''7-26''),
     ([0, 1, 3, 4, 5, 6, 9], ''7-27''), ([0, 1, 3, 4, 5, 7, 8], ''7-28''),
     ([0, 1, 3, 4, 6, 7, 8], ''7-29''), ([0, 1, 3, 4, 6, 7, 9], ''7-30''),
     ([0, 1, 3, 5, 6, 7, 8], ''7-31''), ([0, 1, 3, 5, 6, 7, 9], ''7-32''),
     ([0, 1, 4, 5, 6, 7, 8], ''7-33''), ([0, 1, 4, 5, 6, 7, 9], ''7-34''),
     ([0, 1, 4, 5, 6, 8, 9], ''7-35''), ([0, 1, 5, 6, 7, 8, 9], ''7-36''),
     ([0, 2, 3, 4, 5, 6, 8], ''7-37''), ([0, 2, 3, 4, 5, 7, 9], ''7-38'')]"

definition forte_8 :: "(int list \<times> string) list" where
  "forte_8 =
    [([0, 1, 2, 3, 4, 5, 6, 7], ''8-1''), ([0, 1, 2, 3, 4, 5, 6, 8], ''8-2''),
     ([0, 1, 2, 3, 4, 5, 6, 9], ''8-3''), ([0, 1, 2, 3, 4, 5, 7, 8], ''8-4''),
     ([0, 1, 2, 3, 4, 5, 7, 9], ''8-5''), ([0, 1, 2, 3, 4, 6, 7, 8], ''8-6''),
     ([0, 1, 2, 3, 4, 6, 7, 9], ''8-7''), ([0, 1, 2, 3, 4, 6, 8, 9], ''8-8''),
     ([0, 1, 2, 3, 5, 6, 7, 8], ''8-9''), ([0, 1, 2, 3, 5, 6, 7, 9], ''8-10''),
     ([0, 1, 2, 3, 5, 6, 8, 9], ''8-11''), ([0, 1, 2, 3, 6, 7, 8, 9], ''8-12''),
     ([0, 1, 2, 4, 5, 6, 7, 8], ''8-13''), ([0, 1, 2, 4, 5, 6, 7, 9], ''8-14''),
     ([0, 1, 2, 4, 5, 6, 8, 9], ''8-15''), ([0, 1, 2, 4, 6, 7, 8, 9], ''8-16''),
     ([0, 1, 2, 5, 6, 7, 8, 9], ''8-17''), ([0, 1, 3, 4, 5, 6, 7, 8], ''8-18''),
     ([0, 1, 3, 4, 5, 6, 7, 9], ''8-19''), ([0, 1, 3, 4, 5, 6, 8, 9], ''8-20''),
     ([0, 1, 3, 4, 6, 7, 8, 9], ''8-21''), ([0, 1, 3, 5, 6, 7, 8, 9], ''8-22''),
     ([0, 1, 4, 5, 6, 7, 8, 9], ''8-23''), ([0, 2, 3, 4, 5, 6, 7, 8], ''8-24''),
     ([0, 2, 3, 4, 5, 6, 7, 9], ''8-25''), ([0, 2, 3, 4, 5, 6, 8, 9], ''8-26''),
     ([0, 2, 3, 4, 5, 7, 8, 9], ''8-27''), ([0, 2, 3, 4, 6, 7, 8, 9], ''8-28''),
     ([0, 2, 4, 5, 6, 7, 8, 9], ''8-29'')]"

definition forte_9 :: "(int list \<times> string) list" where
  "forte_9 =
    [([0, 1, 2, 3, 4, 5, 6, 7, 8], ''9-1''), ([0, 1, 2, 3, 4, 5, 6, 7, 9], ''9-2''),
     ([0, 1, 2, 3, 4, 5, 6, 8, 9], ''9-3''), ([0, 1, 2, 3, 4, 5, 7, 8, 9], ''9-4''),
     ([0, 1, 2, 3, 4, 6, 7, 8, 9], ''9-5''), ([0, 1, 2, 3, 5, 6, 7, 8, 9], ''9-6''),
     ([0, 1, 2, 4, 5, 6, 7, 8, 9], ''9-7''), ([0, 1, 3, 4, 5, 6, 7, 8, 9], ''9-8''),
     ([0, 2, 3, 4, 5, 6, 7, 8, 9], ''9-9''), ([0, 1, 2, 3, 4, 5, 6, 7, 10], ''9-10''),
     ([0, 1, 2, 3, 4, 5, 6, 8, 10], ''9-11''), ([0, 1, 2, 3, 4, 5, 7, 8, 10], ''9-12'')]"

definition forte_10 :: "(int list \<times> string) list" where
  "forte_10 =
    [([0, 1, 2, 3, 4, 5, 6, 7, 8, 9], ''10-1''), ([0, 1, 2, 3, 4, 5, 6, 7, 8, 10], ''10-2''),
     ([0, 1, 2, 3, 4, 5, 6, 7, 9, 10], ''10-3''), ([0, 1, 2, 3, 4, 5, 6, 8, 9, 10], ''10-4''),
     ([0, 1, 2, 3, 4, 5, 7, 8, 9, 10], ''10-5''), ([0, 1, 2, 3, 4, 6, 7, 8, 9, 10], ''10-6'')]"

definition forte_11 :: "(int list \<times> string) list" where
  "forte_11 =
    [([0, 1, 2, 3, 4, 5, 6, 7, 8, 9, 10], ''11-1'')]"

definition forte_12 :: "(int list \<times> string) list" where
  "forte_12 =
    [([0, 1, 2, 3, 4, 5, 6, 7, 8, 9, 10, 11], ''12-1'')]"

definition FORTE_TABLE :: "(int \<times> (int list \<times> string) list) list" where
  "FORTE_TABLE =
     [(1, forte_1), (2, forte_2), (3, forte_3), (4, forte_4), (5, forte_5), (6, forte_6),
      (7, forte_7), (8, forte_8), (9, forte_9), (10, forte_10), (11, forte_11),
      (12, forte_12)]"

definition get_forte_number :: "pitch_class_set \<Rightarrow> py_error + string option" where
  "get_forte_number pitch_class_set =
     (let cardinality' = len pitch_class_set
      in case map_of FORTE_TABLE cardinality' of
           None \<Rightarrow> Inr None
         | Some entries \<Rightarrow>
             (case prime_form pitch_class_set of
                Inl e \<Rightarrow> Inl e
              | Inr pf \<Rightarrow> Inr (map_of entries pf)))"

text \<open>
  \<open>str.split('-')\<close>: the pieces between the separators, one more than there are
  separators.
\<close>

fun split_on :: "char \<Rightarrow> string \<Rightarrow> string list" where
  "split_on sep [] = [[]]"
| "split_on sep (c # cs) =
     (if c = sep then [] # split_on sep cs
      else (case split_on sep cs of
              [] \<Rightarrow> [[c]]
            | piece # pieces \<Rightarrow> (c # piece) # pieces))"

text \<open>
  \<open>int(s)\<close> on a string, for strings of ASCII characters: surrounding whitespace is
  dropped, one sign is allowed, then decimal digits, where single underscores may stand
  between digits. \<open>None\<close> stands for \<open>ValueError\<close>.
\<close>

definition is_space :: "char \<Rightarrow> bool" where
  "is_space c = (let n = (of_char c :: nat) in (9 \<le> n \<and> n \<le> 13) \<or> (28 \<le> n \<and> n \<le> 32))"

definition is_digit :: "char \<Rightarrow> bool" where
  "is_digit c = (let n = (of_char c :: nat) in 48 \<le> n \<and> n \<le> 57)"

definition digit_value :: "char \<Rightarrow> int" where
  "digit_value c = int (of_char c) - 48"

fun digits_value :: "string \<Rightarrow> int \<Rightarrow> bool \<Rightarrow> int option" where
  "digits_value [] acc after_digit = (if after_digit then Some acc else None)"
| "digits_value (c # cs) acc after_digit =
     (if is_digit c then digits_value cs (10 * acc + digit_value c) True
      else if c = CHR ''_'' \<and> after_digit then digits_value cs acc False
      else None)"

definition strip :: "string \<Rightarrow> string" where
  "strip s = rev (dropWhile is_space (rev (dropWhile is_space s)))"

definition py_int :: "string \<Rightarrow> int option" where
  "py_int s =
     (case strip s of
        [] \<Rightarrow> None
      | c # cs \<Rightarrow>
          if c = CHR ''-'' then map_option uminus (digits_value cs 0 False)
          else if c = CHR ''+'' then digits_value cs 0 False
          else digits_value (c # cs) 0 False)"

text \<open>
  The search loop of \<open>get_set_from_forte_number\<close> over \<open>.items()\<close>: it returns at the first
  entry whose label is the argument.
\<close>

fun find_label :: "(int list \<times> string) list \<Rightarrow> string \<Rightarrow> pitch_class_set option" where
  "find_label [] forte_number = None"
| "find_label ((key, forte_num) # rest) forte_number =
     (if forte_num = forte_number then Some (PitchClassSet key)
      else find_label rest forte_number)"

text \<open>
  \<open>get_set_from_forte_number\<close>: unpacking the split into two names raises \<open>ValueError\<close>
  unless there are exactly two pieces; this and the \<open>ValueError\<close> of \<open>int\<close> are caught and
  give \<open>None\<close>.
\<close>

definition get_set_from_forte_number :: "string \<Rightarrow> pitch_class_set option" where
  "get_set_from_forte_number forte_number =
     (case split_on CHR ''-'' forte_number of
        [cardinality_str, number_str] \<Rightarrow>
          (case py_int cardinality_str of
             None \<Rightarrow> None
           | Some cardinality' \<Rightarrow>
               (case py_int number_str of
                  None \<Rightarrow> None
                | Some number \<Rightarrow>
                    (case map_of FORTE_TABLE cardinality' of
                       None \<Rightarrow> None
                     | Some entries \<Rightarrow> find_label entries forte_number)))
      | _ \<Rightarrow> None)"

text \<open>The scan of \<open>get_z_partner\<close> over the entries of the set's cardinality.\<close>

fun z_scan :: "(int list \<times> string) list \<Rightarrow> string \<Rightarrow> int list \<Rightarrow> py_error + string option" where
  "z_scan [] forte_number target_iv = Inr None"
| "z_scan ((key, forte_num) # rest) forte_number target_iv =
     (if forte_num = forte_number then z_scan rest forte_number target_iv
      else (case interval_vector (PitchClassSet key) of
              Inl e \<Rightarrow> Inl e
            | Inr iv \<Rightarrow>
                if iv = target_iv then Inr (Some forte_num)
                else z_scan rest forte_number target_iv))"

definition get_z_partner :: "pitch_class_set \<Rightarrow> py_error + string option" where
  "get_z_partner pitch_class_set =
     (case get_forte_number pitch_class_set of
        Inl e \<Rightarrow> Inl e
      | Inr None \<Rightarrow> Inr None
      | Inr (Some forte_number) \<Rightarrow>
          (case interval_vector pitch_class_set of
             Inl e \<Rightarrow> Inl e
           | Inr target_iv \<Rightarrow>
               (case map_of FORTE_TABLE (len pitch_class_set) of
                  None \<Rightarrow> Inr None
                | Some entries \<Rightarrow> z_scan entries forte_number target_iv)))"

text \<open>
  The expression of the round trip,
  \<open>get_set_from_forte_number(get_forte_number(pcs)).prime_form()\<close>: when
  \<open>get_forte_number\<close> returns \<open>None\<close>, \<open>None.split\<close> raises \<open>AttributeError\<close>, which the
  \<open>except\<close> clause does not catch; when the lookup of the label returns \<open>None\<close>,
  \<open>None.prime_form\<close> raises it.
\<close>

definition round_trip :: "pitch_class_set \<Rightarrow> py_error + int list" where
  "round_trip pcs =
     (case get_forte_number pcs of
        Inl e \<Rightarrow> Inl e
      | Inr None \<Rightarrow> Inl AttributeError
      | Inr (Some forte_number) \<Rightarrow>
          (case get_set_from_forte_number forte_number of
             None \<Rightarrow> Inl AttributeError
           | Some found \<Rightarrow> prime_form found))"

section \<open>Functions used to state and prove the properties\<close>

text \<open>
  The interval class of two pitch classes, as the body of the inner loop of
  \<open>interval_vector\<close> computes it.
\<close>

definition interval_class :: "int \<Rightarrow> int \<Rightarrow> int" where
  "interval_class a b = (let interval = \<bar>a - b\<bar> in min interval (12 - interval))"

text \<open>The interval classes of all pairs of a list, each element against the later ones.\<close>

fun pair_classes :: "int list \<Rightarrow> int list" where
  "pair_classes [] = []"
| "pair_classes (x # xs) = map (interval_class x) xs @ pair_classes xs"

text \<open>Counting a sequence of interval classes into the running list of counts.\<close>

fun tally :: "int list \<Rightarrow> int list \<Rightarrow> py_error + int list" where
  "tally [] counts = Inr counts"
| "tally (v # vs) counts =
     (case incr_at counts (v - 1) of Inl e \<Rightarrow> Inl e | Inr counts' \<Rightarrow> tally vs counts')"

definition histogram :: "int list \<Rightarrow> int list" where
  "histogram vs = map (\<lambda>k. int (count_list vs k)) [1, 2, 3, 4, 5, 6]"

text \<open>\<open>FORTE_TABLE[c].get(key)\<close>, with \<open>None\<close> also for a cardinality that is no key.\<close>

definition table_get :: "int \<Rightarrow> int list \<Rightarrow> string option" where
  "table_get c key =
     (case map_of FORTE_TABLE c of None \<Rightarrow> None | Some entries \<Rightarrow> map_of entries key)"

text \<open>
  The table of cardinality \<open>c\<close> maps two different prime-form keys to the same label.
\<close>

definition dup_label :: "int \<Rightarrow> bool" where
  "dup_label c =
     (case map_of FORTE_TABLE c of
        None \<Rightarrow> False
      | Some es \<Rightarrow> list_ex (\<lambda>(k1, l1). list_ex (\<lambda>(k2, l2). k1 \<noteq> k2 \<and> l1 = l2) es) es)"

section \<open>Evaluation of the constructor\<close>

lemma pitch_classes_PitchClassSet:
  "pitch_classes (PitchClassSet xs) = sort (remdups (map (\<lambda>pc. pc mod 12) xs))"
  by (simp add: PitchClassSet_def)

lemma cardinality_PitchClassSet:
  "cardinality (PitchClassSet xs) = length (remdups (map (\<lambda>pc. pc mod 12) xs))"
  by (simp add: PitchClassSet_def)

section \<open>The interval vector as a histogram of pair classes\<close>

lemma iv_inner_tally:
  "iv_inner pcs i js counts = tally (map (\<lambda>j. interval_class (pcs ! i) (pcs ! j)) js) counts"
  by (induction js arbitrary: counts) (auto simp: interval_class_def Let_def split: sum.splits)

lemma tally_append:
  "tally (vs @ ws) counts = (case tally vs counts of Inl e \<Rightarrow> Inl e | Inr c \<Rightarrow> tally ws c)"
  by (induction vs arbitrary: counts) (auto split: sum.splits)

lemma iv_outer_tally:
  "iv_outer pcs is counts =
     tally (concat (map (\<lambda>i. map (\<lambda>j. interval_class (pcs ! i) (pcs ! j)) [i + 1..<length pcs]) is)) counts"
  by (induction "is" arbitrary: counts) (auto simp: iv_inner_tally tally_append split: sum.splits)

lemma upt_shift: "[Suc i..<Suc n] = map Suc [i..<n]"
  by (simp add: map_Suc_upt)

lemma loop_pairs:
  "concat (map (\<lambda>i. map (\<lambda>j. interval_class (pcs ! i) (pcs ! j)) [i + 1..<length pcs]) [0..<length pcs])
     = pair_classes pcs"
proof (induction pcs)
  case Nil
  show ?case by simp
next
  case (Cons x xs)
  let ?F = "\<lambda>i. map (\<lambda>j. interval_class ((x # xs) ! i) ((x # xs) ! j)) [i + 1..<length (x # xs)]"
  let ?G = "\<lambda>i. map (\<lambda>j. interval_class (xs ! i) (xs ! j)) [i + 1..<length xs]"
  have first: "?F 0 = map (interval_class x) xs"
  proof -
    have "?F 0 = map (\<lambda>j. interval_class x (xs ! j)) [0..<length xs]"
      by (simp add: upt_shift comp_def del: upt_Suc)
    also have "\<dots> = map (interval_class x) (map (\<lambda>j. xs ! j) [0..<length xs])"
      by (simp add: comp_def)
    also have "\<dots> = map (interval_class x) xs"
      by (simp only: map_nth)
    finally show ?thesis .
  qed
  have step: "?F (Suc i) = ?G i" for i
    by (simp add: upt_shift comp_def del: upt_Suc)
  have rest: "map ?F (map Suc [0..<length xs]) = map ?G [0..<length xs]"
    unfolding map_map comp_def step ..
  have range: "[0..<length (x # xs)] = 0 # map Suc [0..<length xs]"
    by (simp add: upt_conv_Cons upt_shift del: upt_Suc)
  have "concat (map ?F [0..<length (x # xs)]) = ?F 0 @ concat (map ?F (map Suc [0..<length xs]))"
    unfolding range by (simp only: list.map concat.simps)
  also have "\<dots> = map (interval_class x) xs @ concat (map ?G [0..<length xs])"
    unfolding first rest ..
  also have "\<dots> = pair_classes (x # xs)"
    using Cons.IH by simp
  finally show ?case .
qed

lemma length6: "length (cs :: int list) = 6 \<Longrightarrow> \<exists>a b c d e f. cs = [a, b, c, d, e, f]"
  by (auto simp: length_Suc_conv numeral_eq_Suc)

lemma incr_at_valid:
  assumes "1 \<le> v" "v \<le> 6"
  shows "incr_at [a, b, c, d, e, f] (v - 1) = Inr (map2 (+) [a, b, c, d, e, f] (histogram [v]))"
proof -
  from assms have "v = 1 \<or> v = 2 \<or> v = 3 \<or> v = 4 \<or> v = 5 \<or> v = 6" by arith
  then show ?thesis
    by (auto simp: incr_at_def histogram_def)
qed

lemma histogram_Cons:
  "map2 (+) (map2 (+) [a, b, c, d, e, f] (histogram [v])) (histogram vs)
     = map2 (+) [a, b, c, d, e, f] (histogram (v # vs))"
  by (simp add: histogram_def)

lemma tally_histogram:
  assumes "\<forall>v\<in>set vs. 1 \<le> v \<and> v \<le> 6" "length counts = 6"
  shows "tally vs counts = Inr (map2 (+) counts (histogram vs))"
  using assms
proof (induction vs arbitrary: counts)
  case Nil
  then obtain a b c d e f where "counts = [a, b, c, d, e, f]" using length6 by blast
  then show ?case by (simp add: histogram_def)
next
  case (Cons v vs)
  then obtain a b c d e f where cs: "counts = [a, b, c, d, e, f]" using length6 by blast
  from Cons.prems have v: "1 \<le> v" "v \<le> 6" by auto
  let ?c' = "map2 (+) [a, b, c, d, e, f] (histogram [v])"
  have len: "length ?c' = 6" by (simp add: histogram_def)
  have "tally (v # vs) counts = tally vs ?c'"
    using incr_at_valid[OF v] cs by simp
  also have "\<dots> = Inr (map2 (+) ?c' (histogram vs))"
    using Cons.IH[OF _ len] Cons.prems by simp
  finally show ?case unfolding cs histogram_Cons .
qed


subsection \<open>Lists of distinct pitch classes\<close>

lemma interval_class_range:
  assumes "0 \<le> a" "a < 12" "0 \<le> b" "b < 12" "a \<noteq> b"
  shows "1 \<le> interval_class a b \<and> interval_class a b \<le> 6"
  using assms by (simp add: interval_class_def Let_def) arith

lemma pair_classes_range:
  assumes "distinct xs" "\<forall>x\<in>set xs. 0 \<le> x \<and> x < 12"
  shows "\<forall>v\<in>set (pair_classes xs). 1 \<le> v \<and> v \<le> 6"
  using assms
proof (induction xs)
  case Nil
  show ?case by simp
next
  case (Cons x xs)
  have "1 \<le> interval_class x y \<and> interval_class x y \<le> 6" if "y \<in> set xs" for y
    using that Cons.prems by (intro interval_class_range) auto
  moreover have "\<forall>v\<in>set (pair_classes xs). 1 \<le> v \<and> v \<le> 6"
    using Cons by simp
  ultimately show ?case by auto
qed

lemma interval_vector_histogram:
  assumes "distinct (pitch_classes p)" "\<forall>x\<in>set (pitch_classes p). 0 \<le> x \<and> x < 12"
  shows "interval_vector p = Inr (histogram (pair_classes (pitch_classes p)))"
proof (cases "length (pitch_classes p) < 2")
  case True
  then have "pitch_classes p = [] \<or> (\<exists>x. pitch_classes p = [x])"
    by (cases "pitch_classes p"; cases "tl (pitch_classes p)") auto
  then have "pair_classes (pitch_classes p) = []" by auto
  with True show ?thesis by (simp add: interval_vector_def histogram_def)
next
  case False
  have "iv_outer (pitch_classes p) [0..<length (pitch_classes p)] (replicate 6 0)
      = tally (pair_classes (pitch_classes p)) (replicate 6 0)"
    by (simp only: iv_outer_tally loop_pairs)
  then have "interval_vector p = tally (pair_classes (pitch_classes p)) (replicate 6 0)"
    using False by (simp only: interval_vector_def if_False)
  also have "\<dots> = Inr (map2 (+) (replicate 6 0) (histogram (pair_classes (pitch_classes p))))"
    using pair_classes_range[OF assms] by (intro tally_histogram) simp_all
  also have "map2 (+) (replicate 6 0) (histogram (pair_classes (pitch_classes p)))
      = histogram (pair_classes (pitch_classes p))"
    by (simp add: histogram_def numeral_eq_Suc)
  finally show ?thesis .
qed

lemma length_pair_classes_nat: "2 * length (pair_classes xs) + length xs = length xs * length xs"
  by (induction xs) (auto simp: algebra_simps)

lemma length_pair_classes:
  "int (length (pair_classes xs)) = int (length xs) * (int (length xs) - 1) div 2"
proof -
  have "2 * int (length (pair_classes xs)) + int (length xs) = int (length xs) * int (length xs)"
    using length_pair_classes_nat[of xs] by (metis of_nat_add of_nat_mult of_nat_numeral)
  then have "2 * int (length (pair_classes xs)) = int (length xs) * (int (length xs) - 1)"
    by (simp add: algebra_simps)
  then show ?thesis by simp
qed

lemma sum_histogram:
  assumes "\<forall>v\<in>set vs. 1 \<le> v \<and> v \<le> 6"
  shows "sum_list (histogram vs) = int (length vs)"
  using assms
proof (induction vs)
  case Nil
  show ?case by (simp add: histogram_def)
next
  case (Cons v vs)
  then have "v = 1 \<or> v = 2 \<or> v = 3 \<or> v = 4 \<or> v = 5 \<or> v = 6" by (simp; arith)
  moreover have "sum_list (histogram vs) = int (length vs)" using Cons by simp
  ultimately show ?case by (auto simp: histogram_def)
qed

lemma PitchClassSet_distinct: "distinct (pitch_classes (PitchClassSet xs))"
  by (simp add: pitch_classes_PitchClassSet)

lemma PitchClassSet_range: "\<forall>x\<in>set (pitch_classes (PitchClassSet xs)). 0 \<le> x \<and> x < 12"
  by (simp add: pitch_classes_PitchClassSet)

lemma PitchClassSet_sorted: "sorted (pitch_classes (PitchClassSet xs))"
  by (simp add: pitch_classes_PitchClassSet)


subsection \<open>The pair counts depend on the elements only\<close>

lemma interval_class_sym: "interval_class a b = interval_class b a"
  by (simp add: interval_class_def abs_minus_commute)

lemma count_column:
  "(\<Sum>x\<leftarrow>xs. if interval_class x a = k then 1 else 0) = count_list (map (interval_class a) xs) k"
  by (induction xs) (auto simp: interval_class_sym[of a])

lemma double_count:
  "(\<Sum>x\<leftarrow>xs. count_list (map (interval_class x) xs) k)
     = 2 * count_list (pair_classes xs) k + count_list (map (\<lambda>x. interval_class x x) xs) k"
proof (induction xs)
  case Nil
  show ?case by simp
next
  case (Cons a xs)
  have "(\<Sum>x\<leftarrow>xs. count_list (map (interval_class x) (a # xs)) k)
      = (\<Sum>x\<leftarrow>xs. (if interval_class x a = k then 1 else 0) + count_list (map (interval_class x) xs) k)"
    by (intro arg_cong[where f = sum_list] map_cong) auto
  also have "\<dots> = count_list (map (interval_class a) xs) k
      + (\<Sum>x\<leftarrow>xs. count_list (map (interval_class x) xs) k)"
    by (simp add: sum_list_addf count_column)
  finally show ?case using Cons.IH by simp
qed

lemma double_count_mset:
  "(\<Sum>x\<leftarrow>xs. count_list (map (interval_class x) xs) k)
     = (\<Sum>x\<in>#mset xs. count (image_mset (interval_class x) (mset xs)) k)"
proof -
  have "(\<Sum>x\<leftarrow>xs. count_list (map (interval_class x) xs) k)
      = (\<Sum>x\<leftarrow>xs. count (image_mset (interval_class x) (mset xs)) k)"
    by (simp flip: count_mset)
  also have "\<dots> = (\<Sum>x\<in>#mset xs. count (image_mset (interval_class x) (mset xs)) k)"
    by (simp flip: sum_mset_sum_list)
  finally show ?thesis .
qed

lemma count_pair_classes_mset:
  assumes "mset xs = mset ys"
  shows "count_list (pair_classes xs) k = count_list (pair_classes ys) k"
proof -
  have "(\<Sum>x\<leftarrow>xs. count_list (map (interval_class x) xs) k)
      = (\<Sum>x\<leftarrow>ys. count_list (map (interval_class x) ys) k)"
    by (simp only: double_count_mset assms)
  moreover have "count_list (map (\<lambda>x. interval_class x x) xs) k
      = count_list (map (\<lambda>x. interval_class x x) ys) k"
    using assms by (metis count_mset mset_map)
  ultimately have "2 * count_list (pair_classes xs) k = 2 * count_list (pair_classes ys) k"
    by (simp add: double_count)
  then show ?thesis by simp
qed

lemma histogram_mset:
  "mset xs = mset ys \<Longrightarrow> histogram (pair_classes xs) = histogram (pair_classes ys)"
  by (simp add: histogram_def count_pair_classes_mset[of xs ys])

lemma pair_classes_map:
  assumes "\<forall>a\<in>set xs. \<forall>b\<in>set xs. interval_class (f a) (f b) = interval_class a b"
  shows "pair_classes (map f xs) = pair_classes xs"
  using assms by (induction xs) auto

subsection \<open>Transposition and inversion keep interval classes\<close>

lemma interval_class_shift:
  assumes "0 \<le> a" "a < 12" "0 \<le> b" "b < 12" "0 \<le> a'" "a' < 12" "0 \<le> b'" "b' < 12"
    and "a' - b' = a - b + 12 * d \<or> a' - b' = b - a + 12 * d"
  shows "interval_class a' b' = interval_class a b"
proof -
  define e c where "e = a' - b'" and "c = a - b"
  have bounds: "- 12 < e" "e < 12" "- 12 < c" "c < 12"
    using assms by (auto simp: e_def c_def)
  have "e = c + 12 * d \<or> e = - c + 12 * d"
    using assms(9) by (auto simp: e_def c_def)
  moreover have "d = - 1 \<or> d = 0 \<or> d = 1"
    using bounds \<open>e = c + 12 * d \<or> e = - c + 12 * d\<close> by linarith
  ultimately have "e = c - 12 \<or> e = c \<or> e = c + 12 \<or> e = - c - 12 \<or> e = - c \<or> e = - c + 12"
    by auto
  with bounds have "min \<bar>e\<bar> (12 - \<bar>e\<bar>) = min \<bar>c\<bar> (12 - \<bar>c\<bar>)"
    by (elim disjE) simp_all
  then show ?thesis
    by (simp add: interval_class_def Let_def e_def c_def)
qed

lemma interval_class_transpose:
  assumes "0 \<le> a" "a < 12" "0 \<le> b" "b < 12"
  shows "interval_class ((a + n) mod 12) ((b + n) mod 12) = interval_class a b"
proof -
  have "(a + n) mod 12 = a + n - 12 * ((a + n) div 12)" "(b + n) mod 12 = b + n - 12 * ((b + n) div 12)"
    by (simp_all add: minus_mult_div_eq_mod)
  then have "(a + n) mod 12 - (b + n) mod 12 = a - b + 12 * ((b + n) div 12 - (a + n) div 12)"
    by (simp add: algebra_simps)
  then show ?thesis
    using assms by (intro interval_class_shift[where d = "(b + n) div 12 - (a + n) div 12"]) simp_all
qed

lemma interval_class_invert:
  assumes "0 \<le> a" "a < 12" "0 \<le> b" "b < 12"
  shows "interval_class ((n - a) mod 12) ((n - b) mod 12) = interval_class a b"
proof -
  have "(n - a) mod 12 = n - a - 12 * ((n - a) div 12)" "(n - b) mod 12 = n - b - 12 * ((n - b) div 12)"
    by (simp_all add: minus_mult_div_eq_mod)
  then have "(n - a) mod 12 - (n - b) mod 12 = b - a + 12 * ((n - b) div 12 - (n - a) div 12)"
    by (simp add: algebra_simps)
  then show ?thesis
    using assms by (intro interval_class_shift[where d = "(n - b) div 12 - (n - a) div 12"]) simp_all
qed

lemma transpose_inj:
  assumes "0 \<le> a" "a < 12" "0 \<le> b" "b < 12" "(a + n) mod 12 = (b + n) mod (12::int)"
  shows "a = b"
proof -
  have "(a + n - n) mod 12 = (b + n - n) mod 12"
    using assms(5) by (rule mod_diff_cong) simp
  then show ?thesis using assms by simp
qed

lemma invert_inj:
  assumes "0 \<le> a" "a < 12" "0 \<le> b" "b < 12" "(n - a) mod 12 = (n - b) mod (12::int)"
  shows "a = b"
proof -
  have "(n - (n - a)) mod 12 = (n - (n - b)) mod 12"
    using _ assms(5) by (rule mod_diff_cong) simp
  then show ?thesis using assms by simp
qed

subsection \<open>Normalisation of an injective image\<close>

lemma map_mod_id: "\<forall>x\<in>set s. 0 \<le> x \<and> x < 12 \<Longrightarrow> map (\<lambda>pc. pc mod 12) s = (s :: int list)"
  by (induction s) auto

lemma PitchClassSet_map_mset:
  assumes "distinct s" "inj_on f (set s)" "\<forall>x\<in>set s. 0 \<le> f x \<and> f x < 12"
  shows "mset (pitch_classes (PitchClassSet (map f s))) = mset (map f s)"
proof -
  have "map (\<lambda>pc. pc mod 12) (map f s) = map f s"
    using assms(3) by (intro map_mod_id) auto
  moreover have "distinct (map f s)"
    using assms(1,2) by (simp add: distinct_map)
  ultimately have "pitch_classes (PitchClassSet (map f s)) = sort (map f s)"
    by (simp only: pitch_classes_PitchClassSet distinct_remdups_id)
  then show ?thesis
    by (simp only: mset_sort)
qed

lemma interval_vector_image:
  assumes "distinct (pitch_classes p)" "\<forall>x\<in>set (pitch_classes p). 0 \<le> x \<and> x < 12"
    and inj: "inj_on f (set (pitch_classes p))"
    and range: "\<forall>x\<in>set (pitch_classes p). 0 \<le> f x \<and> f x < 12"
    and keep: "\<forall>a\<in>set (pitch_classes p). \<forall>b\<in>set (pitch_classes p).
                 interval_class (f a) (f b) = interval_class a b"
  shows "interval_vector (PitchClassSet (map f (pitch_classes p))) = interval_vector p"
proof -
  let ?q = "PitchClassSet (map f (pitch_classes p))"
  have "interval_vector ?q = Inr (histogram (pair_classes (pitch_classes ?q)))"
    by (rule interval_vector_histogram[OF PitchClassSet_distinct PitchClassSet_range])
  also have "histogram (pair_classes (pitch_classes ?q))
      = histogram (pair_classes (map f (pitch_classes p)))"
    by (rule histogram_mset) (rule PitchClassSet_map_mset[OF assms(1) inj range])
  also have "pair_classes (map f (pitch_classes p)) = pair_classes (pitch_classes p)"
    by (rule pair_classes_map[OF keep])
  also have "Inr (histogram (pair_classes (pitch_classes p))) = interval_vector p"
    by (rule interval_vector_histogram[OF assms(1,2), symmetric])
  finally show ?thesis .
qed

lemma interval_vector_transposition:
  assumes "distinct (pitch_classes p)" "\<forall>x\<in>set (pitch_classes p). 0 \<le> x \<and> x < 12"
  shows "interval_vector (transposition p n) = interval_vector p"
  unfolding transposition_def
proof (rule interval_vector_image[OF assms])
  show "inj_on (\<lambda>pc. (pc + n) mod 12) (set (pitch_classes p))"
    using assms(2) by (auto intro!: inj_onI elim: transpose_inj[rotated 4])
  show "\<forall>x\<in>set (pitch_classes p). 0 \<le> (x + n) mod 12 \<and> (x + n) mod 12 < 12"
    by simp
  show "\<forall>a\<in>set (pitch_classes p). \<forall>b\<in>set (pitch_classes p).
      interval_class ((a + n) mod 12) ((b + n) mod 12) = interval_class a b"
    using assms(2) by (simp add: interval_class_transpose)
qed

lemma interval_vector_inversion:
  assumes "distinct (pitch_classes p)" "\<forall>x\<in>set (pitch_classes p). 0 \<le> x \<and> x < 12"
  shows "interval_vector (inversion p n) = interval_vector p"
  unfolding inversion_def
proof (rule interval_vector_image[OF assms])
  show "inj_on (\<lambda>pc. (n - pc) mod 12) (set (pitch_classes p))"
    using assms(2) by (auto intro!: inj_onI elim: invert_inj[rotated 4])
  show "\<forall>x\<in>set (pitch_classes p). 0 \<le> (n - x) mod 12 \<and> (n - x) mod 12 < 12"
    by simp
  show "\<forall>a\<in>set (pitch_classes p). \<forall>b\<in>set (pitch_classes p).
      interval_class ((n - a) mod 12) ((n - b) mod 12) = interval_class a b"
    using assms(2) by (simp add: interval_class_invert)
qed

lemma interval_vector_sum:
  assumes "distinct (pitch_classes p)" "\<forall>x\<in>set (pitch_classes p). 0 \<le> x \<and> x < 12"
  shows "\<exists>v. interval_vector p = Inr v
           \<and> sum_list v = int (length (pitch_classes p)) * (int (length (pitch_classes p)) - 1) div 2"
proof -
  have "sum_list (histogram (pair_classes (pitch_classes p)))
      = int (length (pair_classes (pitch_classes p)))"
    by (rule sum_histogram[OF pair_classes_range[OF assms]])
  then show ?thesis
    using interval_vector_histogram[OF assms] by (simp add: length_pair_classes)
qed

lemma retrograde_PitchClassSet:
  "pitch_classes (retrograde (PitchClassSet xs)) = rev (pitch_classes (PitchClassSet xs))"
  "cardinality (retrograde (PitchClassSet xs)) = length (pitch_classes (PitchClassSet xs))"
proof -
  let ?s = "pitch_classes (PitchClassSet xs)"
  show "pitch_classes (retrograde (PitchClassSet xs)) = rev ?s"
    by (simp add: retrograde_def Let_def PitchClassSet_def)
  have "map (\<lambda>pc. pc mod 12) (rev ?s) = rev ?s"
    using PitchClassSet_range[of xs] by (intro map_mod_id) simp
  moreover have "distinct (rev ?s)"
    using PitchClassSet_distinct[of xs] by simp
  ultimately have "cardinality (PitchClassSet (rev ?s)) = length (rev ?s)"
    by (simp only: cardinality_PitchClassSet distinct_remdups_id)
  then have "cardinality (PitchClassSet (rev ?s)) = length ?s"
    by simp
  then show "cardinality (retrograde (PitchClassSet xs)) = length ?s"
  proof (cases "?s = []")
    case True
    then show ?thesis by (simp add: retrograde_def cardinality_PitchClassSet)
  next
    case False
    with \<open>cardinality (PitchClassSet (rev ?s)) = length ?s\<close> show ?thesis
      by (simp add: retrograde_def Let_def)
  qed
qed

subsection \<open>Rotation and retrograde of a constructed set\<close>

text \<open>
  The constructor undoes every reordering of an already normalised list, so \<open>rotation\<close>
  returns the set it was given.
\<close>

lemma normalize_permutation:
  assumes "sorted (s :: int list)" "distinct s" "\<forall>x\<in>set s. 0 \<le> x \<and> x < 12" "mset t = mset s"
  shows "sort (remdups (map (\<lambda>pc. pc mod 12) t)) = s"
proof -
  have "set t = set s" using assms(4) by (rule mset_eq_setD)
  then have "map (\<lambda>pc. pc mod 12) t = t"
    using assms(3) by (intro map_mod_id) simp
  moreover have "distinct t"
    using assms(2,4) by (metis mset_eq_imp_distinct_iff)
  ultimately have "sort (remdups (map (\<lambda>pc. pc mod 12) t)) = sort t"
    by (simp only: distinct_remdups_id)
  also have "sort t = s"
    using assms(1,4) by (intro properties_for_sort) simp_all
  finally show ?thesis .
qed

lemma rotation_PitchClassSet: "rotation (PitchClassSet xs) n = PitchClassSet xs"
proof -
  define s where "s = sort (remdups (map (\<lambda>pc. pc mod 12) xs))"
  have p: "PitchClassSet xs = \<lparr>pitch_classes = s, cardinality = length s\<rparr>"
    by (simp add: PitchClassSet_def s_def)
  show ?thesis
  proof (cases "s = []")
    case True
    then show ?thesis by (simp add: rotation_def p) (simp add: PitchClassSet_def)
  next
    case False
    define m where "m = nat (n mod int (length s))"
    have "sorted s" "distinct s" "\<forall>x\<in>set s. 0 \<le> x \<and> x < 12"
      by (simp_all add: s_def)
    moreover have "mset (drop m s @ take m s) = mset s"
      by (metis append_take_drop_id mset_append union_commute)
    ultimately have "sort (remdups (map (\<lambda>pc. pc mod 12) (drop m s @ take m s))) = s"
      by (rule normalize_permutation)
    then have "PitchClassSet (drop m s @ take m s) = \<lparr>pitch_classes = s, cardinality = length s\<rparr>"
      by (simp add: PitchClassSet_def del: map_append)
    with False show ?thesis
      by (simp add: rotation_def p Let_def m_def)
  qed
qed

text \<open>
  The retrograde compares equal to the original exactly when there is at most one
  pitch class.
\<close>

lemma sorted_distinct_rev:
  assumes "sorted (s :: int list)" "distinct s" "rev s = s"
  shows "length s \<le> 1"
proof (rule ccontr)
  assume "\<not> length s \<le> 1"
  then obtain a b t where s: "s = a # b # t"
    by (cases s; cases "tl s") auto
  have "a < last s"
    using assms(1,2) unfolding s by (cases "t = []") (auto simp: less_le)
  moreover have "hd (rev s) = last s"
    unfolding s by (simp add: hd_rev)
  moreover have "hd s = a"
    by (simp add: s)
  ultimately show False
    using assms(3) by simp
qed

lemma retrograde_eq_iff:
  "pcs_eq (retrograde (PitchClassSet xs)) (PitchClassSet xs)
     \<longleftrightarrow> length (pitch_classes (PitchClassSet xs)) \<le> 1"
proof
  assume "pcs_eq (retrograde (PitchClassSet xs)) (PitchClassSet xs)"
  then have "rev (pitch_classes (PitchClassSet xs)) = pitch_classes (PitchClassSet xs)"
    by (simp add: pcs_eq_def retrograde_PitchClassSet)
  then show "length (pitch_classes (PitchClassSet xs)) \<le> 1"
    using PitchClassSet_sorted PitchClassSet_distinct by (intro sorted_distinct_rev)
next
  assume "length (pitch_classes (PitchClassSet xs)) \<le> 1"
  then have "rev (pitch_classes (PitchClassSet xs)) = pitch_classes (PitchClassSet xs)"
    by (cases "pitch_classes (PitchClassSet xs)") auto
  then show "pcs_eq (retrograde (PitchClassSet xs)) (PitchClassSet xs)"
    by (simp add: pcs_eq_def retrograde_PitchClassSet)
qed

section \<open>Facts about the classification table\<close>

lemma forte_keys_distinct:
  "list_all (\<lambda>(c, es). distinct (map fst es)) FORTE_TABLE"
  by code_simp

lemma forte_keys_cardinality:
  "list_all (\<lambda>(c, es). list_all (\<lambda>(k, l). pitch_classes (PitchClassSet k) = k \<and> len (PitchClassSet k) = c) es) FORTE_TABLE"
  by code_simp

lemma FORTE_TABLE_outside: "c < 1 \<or> 12 < c \<Longrightarrow> map_of FORTE_TABLE c = None"
  by (auto simp: FORTE_TABLE_def)

lemma dup_label_outside: "c < 1 \<or> 12 < c \<Longrightarrow> \<not> dup_label c"
  by (simp add: dup_label_def FORTE_TABLE_outside)

lemma dup_label_inside:
  "\<not> dup_label 1" "\<not> dup_label 2" "dup_label 3" "dup_label 4" "\<not> dup_label 5" "dup_label 6"
  "\<not> dup_label 7" "\<not> dup_label 8" "\<not> dup_label 9" "\<not> dup_label 10" "\<not> dup_label 11"
  "\<not> dup_label 12"
  by code_simp+

lemma find_label_first:
  "find_label es L = Some q \<Longrightarrow>
     \<exists>i<length es. snd (es ! i) = L \<and> (\<forall>j<i. snd (es ! j) \<noteq> L) \<and> q = PitchClassSet (fst (es ! i))"
proof (induction es)
  case Nil
  then show ?case by simp
next
  case (Cons e es)
  obtain k l where e: "e = (k, l)" by (cases e)
  show ?case
  proof (cases "l = L")
    case True
    with Cons.prems e have "q = PitchClassSet k" by simp
    with True e show ?thesis by (intro exI[of _ 0]) simp
  next
    case False
    with Cons.prems e have "find_label es L = Some q" by simp
    from Cons.IH[OF this] obtain i where i: "i < length es" "snd (es ! i) = L"
      "\<forall>j<i. snd (es ! j) \<noteq> L" "q = PitchClassSet (fst (es ! i))" by blast
    have "\<forall>j<Suc i. snd ((e # es) ! j) \<noteq> L"
    proof (intro allI impI)
      fix j assume "j < Suc i"
      then show "snd ((e # es) ! j) \<noteq> L"
        using False e i(3) by (cases j) auto
    qed
    with i show ?thesis by (intro exI[of _ "Suc i"]) simp
  qed
qed

lemma get_set_find_label:
  "get_set_from_forte_number L = Some q \<Longrightarrow>
     \<exists>c es. map_of FORTE_TABLE c = Some es \<and> find_label es L = Some q"
  by (auto simp: get_set_from_forte_number_def split: list.splits option.splits)

lemma dup_label_iff:
  assumes "map_of FORTE_TABLE c = Some es"
  shows "dup_label c \<longleftrightarrow> (\<exists>k1 k2 l. k1 \<noteq> k2 \<and> map_of es k1 = Some l \<and> map_of es k2 = Some l)"
proof -
  have "(c, es) \<in> set FORTE_TABLE" using assms by (rule map_of_SomeD)
  then have d: "distinct (map fst es)"
    using forte_keys_distinct by (auto simp: list_all_iff)
  have "dup_label c \<longleftrightarrow> (\<exists>k1 l1 k2. (k1, l1) \<in> set es \<and> (k2, l1) \<in> set es \<and> k1 \<noteq> k2)"
    using assms by (auto simp: dup_label_def list_ex_iff)
  also have "\<dots> \<longleftrightarrow> (\<exists>k1 k2 l. k1 \<noteq> k2 \<and> map_of es k1 = Some l \<and> map_of es k2 = Some l)"
    using d by (metis map_of_eq_Some_iff)
  finally show ?thesis .
qed

lemma other_keys_fixed_points:
  "list_all (\<lambda>(c, es). list_all (\<lambda>(k, l). k = [0, 4, 6, 10] \<or> prime_form (PitchClassSet k) = Inr k) es)
     FORTE_TABLE"
  by code_simp

section \<open>Claims\<close>

text \<open>
  C4 (rotation): the claim asks that the stored order of \<open>p.rotation(n)\<close> is
  \<open>s[n mod k:] + s[:n mod k]\<close>. The code builds this list and passes it to the constructor,
  which sorts it again: for the set \<open>[0, 1, 2]\<close> and \<open>n = 1\<close> the stored and playback order
  is \<open>[0, 1, 2]\<close>, not the rotated \<open>[1, 2, 0]\<close> (and \<open>rotation_PitchClassSet\<close>: every
  rotation of every constructed set is the set itself).
\<close>

theorem C4_rotation_order_lost:
  "get_playback_order (rotation (PitchClassSet [0, 1, 2]) 1) = [0, 1, 2]
   \<and> drop (nat (1 mod 3)) (pitch_classes (PitchClassSet [0, 1, 2]))
       @ take (nat (1 mod 3)) (pitch_classes (PitchClassSet [0, 1, 2])) = [1, 2, 0]"
  by (simp add: get_playback_order_def rotation_def pitch_classes_PitchClassSet)

text \<open>
  C5 (retrograde and equality): the claim asks \<open>p.retrograde() == p\<close> for every set. The
  code's equality compares the stored lists, and retrograde stores the reversed list: for
  the set \<open>[0, 1]\<close> the retrograde holds \<open>[1, 0]\<close> and compares unequal to the original
  (and \<open>retrograde_eq_iff\<close>: so does every set of two or more pitch classes).
\<close>

theorem C5_retrograde_not_equal:
  "pitch_classes (retrograde (PitchClassSet [0, 1])) = [1, 0]
   \<and> \<not> pcs_eq (retrograde (PitchClassSet [0, 1])) (PitchClassSet [0, 1])"
  by (simp add: pcs_eq_def retrograde_def pitch_classes_PitchClassSet PitchClassSet_def)

text \<open>
  C1 (prime form is T/I-invariant): the claim asks that \<open>prime_form\<close> gives the same list
  for a set and each of its transpositions and inversions. In the code every rotation
  candidate is the sorted list again and no candidate is transposed to start at 0, so
  the set \<open>[0, 1, 2]\<close> has prime form \<open>[0, 1, 2]\<close>, its transposition by 1 has \<open>[1, 2, 3]\<close>
  and its inversion around 1 has \<open>[0, 1, 11]\<close>.
\<close>

theorem C1_prime_form_not_invariant:
  "prime_form (PitchClassSet [0, 1, 2]) = Inr [0, 1, 2]
   \<and> prime_form (transposition (PitchClassSet [0, 1, 2]) 1) = Inr [1, 2, 3]
   \<and> prime_form (inversion (PitchClassSet [0, 1, 2]) 1) = Inr [0, 1, 11]"
  by (simp add: prime_form_def transposition_def inversion_def rotation_def
      pitch_classes_PitchClassSet upt_rec)

text \<open>
  C2 (table keys are fixed points): the claim asks that every key tuple of the table is
  returned unchanged by \<open>prime_form\<close>. The key \<open>(0, 4, 6, 10)\<close>, labelled \<open>4-29\<close>, is not:
  its sorted inversion \<open>[0, 2, 6, 8]\<close> is smaller, and that is what \<open>prime_form\<close> returns.
  Every other key is a fixed point (\<open>other_keys_fixed_points\<close>).
\<close>

theorem C2_key_not_fixed_point:
  "table_get 4 [0, 4, 6, 10] = Some ''4-29''
   \<and> prime_form (PitchClassSet [0, 4, 6, 10]) = Inr [0, 2, 6, 8]"
  by code_simp

text \<open>
  C3 (round trip through the classification): the claim asks that looking up the label of
  a set and resolving the label again gives a set with the same prime form. For the major
  triad \<open>[0, 4, 7]\<close> the label is \<open>3-11\<close>, which resolves to \<open>[0, 3, 7]\<close>, whose prime form
  \<open>[0, 3, 7]\<close> differs from the triad's \<open>[0, 4, 7]\<close>. For \<open>[1, 2, 3]\<close> no label is found and
  the expression raises \<open>AttributeError\<close>.
\<close>

theorem C3_round_trip_fails:
  "len (PitchClassSet [0, 4, 7]) = 3
   \<and> get_forte_number (PitchClassSet [0, 4, 7]) = Inr (Some ''3-11'')
   \<and> get_set_from_forte_number ''3-11'' = Some (PitchClassSet [0, 3, 7])
   \<and> round_trip (PitchClassSet [0, 4, 7]) = Inr [0, 3, 7]
   \<and> prime_form (PitchClassSet [0, 4, 7]) = Inr [0, 4, 7]
   \<and> get_forte_number (PitchClassSet [1, 2, 3]) = Inr None
   \<and> round_trip (PitchClassSet [1, 2, 3]) = Inl AttributeError"
  by code_simp

text \<open>
  C6 (Z-partners are not T/I-related): the claim asks that the set resolved from the label
  that \<open>get_z_partner\<close> returns is related to the argument by no transposition and no
  inversion. For \<open>[0, 2, 6, 8]\<close> the function returns \<open>4-29\<close>, which resolves to
  \<open>[0, 4, 6, 10]\<close>, whose transposition by 2 is the argument; for \<open>[0, 1, 2, 4, 5]\<close> it
  returns \<open>5-15\<close>, which resolves to \<open>[0, 1, 3, 4, 5]\<close>, whose inversion around 5 is the
  argument.
\<close>

theorem C6_z_partner_is_transposition:
  "get_z_partner (PitchClassSet [0, 2, 6, 8]) = Inr (Some ''4-29'')
   \<and> get_set_from_forte_number ''4-29'' = Some (PitchClassSet [0, 4, 6, 10])
   \<and> pcs_eq (transposition (PitchClassSet [0, 4, 6, 10]) 2) (PitchClassSet [0, 2, 6, 8])
   \<and> get_z_partner (PitchClassSet [0, 1, 2, 4, 5]) = Inr (Some ''5-15'')
   \<and> get_set_from_forte_number ''5-15'' = Some (PitchClassSet [0, 1, 3, 4, 5])
   \<and> pcs_eq (inversion (PitchClassSet [0, 1, 3, 4, 5]) 5) (PitchClassSet [0, 1, 2, 4, 5])"
  by code_simp

text \<open>
  C7 (where labels are duplicated), as stated: duplicate labels occur only at cardinalities
  4 and 6. The table of cardinality 3 maps the two different keys \<open>(0, 3, 7)\<close> and
  \<open>(0, 4, 7)\<close> to the label \<open>3-11\<close>.
\<close>

theorem C7_duplicate_at_cardinality_3:
  "table_get 3 [0, 3, 7] = Some ''3-11'' \<and> table_get 3 [0, 4, 7] = Some ''3-11''
   \<and> [0, 3, 7] \<noteq> [0, 4, 7 :: int] \<and> dup_label 3"
  by code_simp

text \<open>
  C7, amended: two different keys with the same label occur in the table of cardinality
  \<open>c\<close> exactly for \<open>c\<close> among 3, 4 and 6; at every other cardinality the mapping from
  prime form to label is injective (\<open>dup_label_iff\<close> relates \<open>dup_label\<close> to the lookups).
\<close>

theorem C7_duplicates_at_3_4_6:
  "dup_label c \<longleftrightarrow> c = 3 \<or> c = 4 \<or> c = 6"
proof (cases "c < 1 \<or> 12 < c")
  case True
  then show ?thesis using dup_label_outside[of c] by auto
next
  case False
  then have "c = 1 \<or> c = 2 \<or> c = 3 \<or> c = 4 \<or> c = 5 \<or> c = 6 \<or> c = 7 \<or> c = 8 \<or> c = 9
      \<or> c = 10 \<or> c = 11 \<or> c = 12" by arith
  then show ?thesis using dup_label_inside by (elim disjE) simp_all
qed

text \<open>The amended C7 at cardinalities 3, 4, 6 and 5.\<close>

theorem C7_duplicates_at_3_4_6_witness:
  "dup_label 3 \<and> dup_label 4 \<and> dup_label 6 \<and> \<not> dup_label 5"
  using C7_duplicates_at_3_4_6[of 3] C7_duplicates_at_3_4_6[of 4] C7_duplicates_at_3_4_6[of 6]
    C7_duplicates_at_3_4_6[of 5]
  by simp

text \<open>
  C8 (interval vector under transposition and inversion): for every set constructed from a
  list of integers and every integer \<open>n\<close>, the interval vector of the set, of its
  transposition by \<open>n\<close> and of its inversion around \<open>n\<close> are the same, and computing it
  raises no error.
\<close>

theorem C8_interval_vector_invariant:
  "interval_vector (PitchClassSet xs) = interval_vector (transposition (PitchClassSet xs) n)
   \<and> interval_vector (PitchClassSet xs) = interval_vector (inversion (PitchClassSet xs) n)
   \<and> (\<exists>v. interval_vector (PitchClassSet xs) = Inr v)"
  using interval_vector_transposition[OF PitchClassSet_distinct PitchClassSet_range, of xs n]
    interval_vector_inversion[OF PitchClassSet_distinct PitchClassSet_range, of xs n]
    interval_vector_histogram[OF PitchClassSet_distinct PitchClassSet_range, of xs]
  by simp

text \<open>C8 at the major triad \<open>[0, 4, 7]\<close> and \<open>n = 5\<close>.\<close>

theorem C8_interval_vector_invariant_witness:
  "interval_vector (transposition (PitchClassSet [0, 4, 7]) 5) = Inr [0, 0, 1, 1, 1, 0]
   \<and> interval_vector (inversion (PitchClassSet [0, 4, 7]) 5) = Inr [0, 0, 1, 1, 1, 0]"
proof -
  have v: "interval_vector (PitchClassSet [0, 4, 7]) = Inr [0, 0, 1, 1, 1, 0]"
    by code_simp
  show ?thesis
    using C8_interval_vector_invariant[of "[0, 4, 7]" 5] unfolding v by metis
qed

text \<open>
  C9 (first entry wins): whenever \<open>get_set_from_forte_number\<close> returns a set for a label,
  the set is built from the first key, in the insertion order of one cardinality's table,
  that carries the label. The label \<open>3-11\<close> belongs to \<open>(0, 3, 7)\<close> and \<open>(0, 4, 7)\<close> and
  resolves to \<open>PitchClassSet([0, 3, 7])\<close>, not \<open>PitchClassSet([0, 4, 7])\<close>; the other
  duplicated labels \<open>4-25\<close>, \<open>4-26\<close> and \<open>6-35\<close> resolve to their first keys too.
\<close>

theorem C9_first_in_insertion_order:
  "(get_set_from_forte_number L = Some q \<longrightarrow>
      (\<exists>c es i. map_of FORTE_TABLE c = Some es \<and> i < length es \<and> snd (es ! i) = L
         \<and> (\<forall>j<i. snd (es ! j) \<noteq> L) \<and> q = PitchClassSet (fst (es ! i))))
   \<and> table_get 3 [0, 3, 7] = Some ''3-11'' \<and> table_get 3 [0, 4, 7] = Some ''3-11''
   \<and> get_set_from_forte_number ''3-11'' = Some (PitchClassSet [0, 3, 7])
   \<and> get_set_from_forte_number ''3-11'' \<noteq> Some (PitchClassSet [0, 4, 7])
   \<and> get_set_from_forte_number ''4-25'' = Some (PitchClassSet [0, 3, 4, 7])
   \<and> get_set_from_forte_number ''4-26'' = Some (PitchClassSet [0, 3, 5, 8])
   \<and> get_set_from_forte_number ''6-35'' = Some (PitchClassSet [0, 1, 3, 6, 7, 8])"
proof (intro conjI impI)
  assume "get_set_from_forte_number L = Some q"
  then obtain c es where "map_of FORTE_TABLE c = Some es" "find_label es L = Some q"
    using get_set_find_label by blast
  then show "\<exists>c es i. map_of FORTE_TABLE c = Some es \<and> i < length es \<and> snd (es ! i) = L
         \<and> (\<forall>j<i. snd (es ! j) \<noteq> L) \<and> q = PitchClassSet (fst (es ! i))"
    using find_label_first by blast
qed code_simp+

text \<open>C9 at the label \<open>6-35\<close>, which the lookup resolves.\<close>

theorem C9_first_in_insertion_order_witness:
  "get_set_from_forte_number ''6-35'' = Some (PitchClassSet [0, 1, 3, 6, 7, 8])
   \<and> (\<exists>c es i. map_of FORTE_TABLE c = Some es \<and> i < length es \<and> snd (es ! i) = ''6-35''
         \<and> (\<forall>j<i. snd (es ! j) \<noteq> ''6-35'') \<and> PitchClassSet [0, 1, 3, 6, 7, 8] = PitchClassSet (fst (es ! i)))"
  using C9_first_in_insertion_order[of "''6-35''" "PitchClassSet [0, 1, 3, 6, 7, 8]"]
  by blast

text \<open>
  C10 (the interval vector sums to the number of pairs): for every set, constructed or
  returned by \<open>retrograde\<close>, the entries of the interval vector sum to
  \<open>cardinality * (cardinality - 1) / 2\<close>; the product is even, so the division is exact.
\<close>

theorem C10_interval_vector_sum:
  "(\<exists>v. interval_vector (PitchClassSet xs) = Inr v
      \<and> sum_list v = len (PitchClassSet xs) * (len (PitchClassSet xs) - 1) div 2)
   \<and> (\<exists>v. interval_vector (retrograde (PitchClassSet xs)) = Inr v
      \<and> sum_list v = len (retrograde (PitchClassSet xs)) * (len (retrograde (PitchClassSet xs)) - 1) div 2)
   \<and> even (len (PitchClassSet xs) * (len (PitchClassSet xs) - 1))"
proof (intro conjI)
  have "len (PitchClassSet xs) = int (length (pitch_classes (PitchClassSet xs)))"
    by (simp add: len_def PitchClassSet_def Let_def)
  then show "\<exists>v. interval_vector (PitchClassSet xs) = Inr v
      \<and> sum_list v = len (PitchClassSet xs) * (len (PitchClassSet xs) - 1) div 2"
    using interval_vector_sum[OF PitchClassSet_distinct PitchClassSet_range, of xs] by simp
  let ?r = "retrograde (PitchClassSet xs)"
  have "distinct (pitch_classes ?r)" "\<forall>x\<in>set (pitch_classes ?r). 0 \<le> x \<and> x < 12"
    using PitchClassSet_distinct[of xs] PitchClassSet_range[of xs]
    by (simp_all add: retrograde_PitchClassSet)
  moreover have "len ?r = int (length (pitch_classes ?r))"
    by (simp add: len_def retrograde_PitchClassSet)
  ultimately show "\<exists>v. interval_vector ?r = Inr v \<and> sum_list v = len ?r * (len ?r - 1) div 2"
    using interval_vector_sum[of ?r] by simp
  show "even (len (PitchClassSet xs) * (len (PitchClassSet xs) - 1))"
    by simp
qed

text \<open>C10 at the major triad \<open>[0, 4, 7]\<close>: three pairs.\<close>

theorem C10_interval_vector_sum_witness:
  "\<exists>v. interval_vector (PitchClassSet [0, 4, 7]) = Inr v \<and> sum_list v = 3"
proof -
  have k: "len (PitchClassSet [0, 4, 7]) = 3"
    by code_simp
  show ?thesis
    using C10_interval_vector_sum[of "[0, 4, 7]"] unfolding k by simp
qed

end
